theory Spec2Isabelle
  imports Complex_Main
begin

section \<open>Values of a dataframe cell\<close>

text \<open>
  The strategies compute on pandas columns of dtype float64. A cell is a finite number, one
  of the two infinities, or not-a-number. Finite floats are idealised as reals: rounding,
  overflow to infinity and the sign of zero are not modelled; the special values follow
  IEEE 754 as numpy applies them (a comparison with NaN is false, \<open>!=\<close> with NaN is
  true, \<open>x / 0\<close> is an infinity for \<open>x \<noteq> 0\<close> and NaN for \<open>x = 0\<close>).
\<close>

datatype fval = Fin real | PInf | NInf | NaN

fun fneg :: "fval \<Rightarrow> fval" where
  "fneg (Fin a) = Fin (- a)"
| "fneg PInf = NInf"
| "fneg NInf = PInf"
| "fneg NaN = NaN"

fun fadd :: "fval \<Rightarrow> fval \<Rightarrow> fval" where
  "fadd NaN y = NaN"
| "fadd x NaN = NaN"
| "fadd (Fin a) (Fin b) = Fin (a + b)"
| "fadd PInf NInf = NaN"
| "fadd NInf PInf = NaN"
| "fadd PInf y = PInf"
| "fadd NInf y = NInf"
| "fadd (Fin a) y = y"

definition fsub :: "fval \<Rightarrow> fval \<Rightarrow> fval" where
  "fsub x y = fadd x (fneg y)"

text \<open>The sign of an infinite product or quotient: the infinity with the sign of \<open>s\<close>.\<close>

definition signed_inf :: "real \<Rightarrow> fval" where
  "signed_inf s = (if s = 0 then NaN else if 0 < s then PInf else NInf)"

fun fsign :: "fval \<Rightarrow> real" where
  "fsign (Fin a) = sgn a"
| "fsign PInf = 1"
| "fsign NInf = - 1"
| "fsign NaN = 0"

fun fmul :: "fval \<Rightarrow> fval \<Rightarrow> fval" where
  "fmul NaN y = NaN"
| "fmul x NaN = NaN"
| "fmul (Fin a) (Fin b) = Fin (a * b)"
| "fmul x y = signed_inf (fsign x * fsign y)"

fun fdiv :: "fval \<Rightarrow> fval \<Rightarrow> fval" where
  "fdiv NaN y = NaN"
| "fdiv x NaN = NaN"
| "fdiv (Fin a) (Fin b) = (if b = 0 then signed_inf a else Fin (a / b))"
| "fdiv (Fin a) y = Fin 0"
| "fdiv x (Fin b) = (if b < 0 then fneg x else x)"
| "fdiv x y = NaN"

fun flt :: "fval \<Rightarrow> fval \<Rightarrow> bool" where
  "flt NaN y = False"
| "flt x NaN = False"
| "flt (Fin a) (Fin b) = (a < b)"
| "flt NInf NInf = False"
| "flt NInf y = True"
| "flt x PInf = (x \<noteq> PInf)"
| "flt x y = False"

definition fgt :: "fval \<Rightarrow> fval \<Rightarrow> bool" where
  "fgt x y = flt y x"

definition feq :: "fval \<Rightarrow> fval \<Rightarrow> bool" where
  "feq x y = (x \<noteq> NaN \<and> y \<noteq> NaN \<and> x = y)"

definition fne :: "fval \<Rightarrow> fval \<Rightarrow> bool" where
  "fne x y = (\<not> feq x y)"

section \<open>Dataframes\<close>

text \<open>
  A dataframe is its list of column names and its rows. A row gives every numeric column a
  cell (\<open>val\<close>) and every object column, the tag columns \<open>enter_tag\<close> and
  \<open>exit_tag\<close>, an optional string (\<open>tag\<close>, \<open>None\<close> for a missing value). Reading a
  column that is not among \<open>columns\<close> raises \<open>KeyError\<close>.
\<close>

datatype error = KeyError string

record row =
  val :: "string \<Rightarrow> fval"
  tag :: "string \<Rightarrow> string option"

record dataframe =
  columns :: "string list"
  rows :: "row list"

definition has_col :: "dataframe \<Rightarrow> string \<Rightarrow> bool" where
  "has_col df c = (c \<in> set (columns df))"

text \<open>The first column of \<open>cs\<close>, in the order the code reads them, that the frame lacks.\<close>

definition missing_col :: "dataframe \<Rightarrow> string list \<Rightarrow> string option" where
  "missing_col df cs = find (\<lambda>c. \<not> has_col df c) cs"

text \<open>\<open>dataframe[c]\<close> for a column that is present: the Series of its cells.\<close>

definition col :: "dataframe \<Rightarrow> string \<Rightarrow> fval list" where
  "col df c = map (\<lambda>r. val r c) (rows df)"

text \<open>
  What a reader of the frame sees at row \<open>i\<close> of column \<open>c\<close>: \<open>None\<close> when the frame has no
  such column or row. For a tag column a missing value reads as \<open>None\<close> too.
\<close>

definition cell :: "dataframe \<Rightarrow> nat \<Rightarrow> string \<Rightarrow> fval option" where
  "cell df i c = (if has_col df c \<and> i < length (rows df) then Some (val (rows df ! i) c) else None)"

definition tag_cell :: "dataframe \<Rightarrow> nat \<Rightarrow> string \<Rightarrow> string option" where
  "tag_cell df i c = (if has_col df c \<and> i < length (rows df) then tag (rows df ! i) c else None)"

text \<open>
  \<open>dataframe[c] = series\<close>: pandas aligns the Series on the frame's index, so a row the
  Series does not reach gets NaN; a new column is appended to \<open>columns\<close>.
\<close>

definition add_col :: "string list \<Rightarrow> string \<Rightarrow> string list" where
  "add_col cs c = (if c \<in> set cs then cs else cs @ [c])"

definition set_col :: "dataframe \<Rightarrow> string \<Rightarrow> fval list \<Rightarrow> dataframe" where
  "set_col df c xs =
     \<lparr>columns = add_col (columns df) c,
      rows = map (\<lambda>(i, r). r\<lparr>val := (val r)(c := (if i < length xs then xs ! i else NaN))\<rparr>)
               (zip [0..<length (rows df)] (rows df))\<rparr>"

text \<open>
  \<open>dataframe.loc[mask, c] = v\<close>: the rows the boolean mask \<open>sel\<close> selects get \<open>v\<close>, the others
  keep their cell; when the column is new the others get NaN (a missing value).
\<close>

definition loc_set_val :: "dataframe \<Rightarrow> bool list \<Rightarrow> string \<Rightarrow> fval \<Rightarrow> dataframe" where
  "loc_set_val df sel c v =
     \<lparr>columns = add_col (columns df) c,
      rows = map (\<lambda>(i, r). r\<lparr>val := (val r)(c :=
                 (if i < length sel \<and> sel ! i then v
                  else if has_col df c then val r c else NaN))\<rparr>)
               (zip [0..<length (rows df)] (rows df))\<rparr>"

definition loc_set_tag :: "dataframe \<Rightarrow> bool list \<Rightarrow> string \<Rightarrow> string \<Rightarrow> dataframe" where
  "loc_set_tag df sel c s =
     \<lparr>columns = add_col (columns df) c,
      rows = map (\<lambda>(i, r). r\<lparr>tag := (tag r)(c :=
                 (if i < length sel \<and> sel ! i then Some s
                  else if has_col df c then tag r c else None))\<rparr>)
               (zip [0..<length (rows df)] (rows df))\<rparr>"

subsection \<open>Series operations\<close>

definition series_gt :: "fval list \<Rightarrow> fval list \<Rightarrow> bool list" where
  "series_gt xs ys = map2 fgt xs ys"

definition series_gt_c :: "fval list \<Rightarrow> fval \<Rightarrow> bool list" where
  "series_gt_c xs c = map (\<lambda>x. fgt x c) xs"

definition series_lt_c :: "fval list \<Rightarrow> fval \<Rightarrow> bool list" where
  "series_lt_c xs c = map (\<lambda>x. flt x c) xs"

definition series_eq_c :: "fval list \<Rightarrow> fval \<Rightarrow> bool list" where
  "series_eq_c xs c = map (\<lambda>x. feq x c) xs"

definition series_sub :: "fval list \<Rightarrow> fval list \<Rightarrow> fval list" where
  "series_sub xs ys = map2 fsub xs ys"

definition series_sub_c :: "fval list \<Rightarrow> fval \<Rightarrow> fval list" where
  "series_sub_c xs c = map (\<lambda>x. fsub x c) xs"

definition series_div :: "fval list \<Rightarrow> fval list \<Rightarrow> fval list" where
  "series_div xs ys = map2 fdiv xs ys"

definition mask_and :: "bool list \<Rightarrow> bool list \<Rightarrow> bool list" where
  "mask_and xs ys = map2 (\<and>) xs ys"

definition mask_or :: "bool list \<Rightarrow> bool list \<Rightarrow> bool list" where
  "mask_or xs ys = map2 (\<or>) xs ys"

definition mask_not :: "bool list \<Rightarrow> bool list" where
  "mask_not xs = map Not xs"

text \<open>\<open>functools.reduce\<close> without an initial value, on a list the caller knows is not empty.\<close>

definition reduce :: "('a \<Rightarrow> 'a \<Rightarrow> 'a) \<Rightarrow> 'a list \<Rightarrow> 'a" where
  "reduce f xs = foldl f (hd xs) (tl xs)"

definition fsum :: "fval list \<Rightarrow> fval" where
  "fsum xs = foldl fadd (Fin 0) xs"

text \<open>\<open>Series.sum()\<close> skips missing values.\<close>

definition series_sum :: "fval list \<Rightarrow> fval" where
  "series_sum xs = fsum (filter (\<lambda>x. x \<noteq> NaN) xs)"

text \<open>\<open>Series.shift(-k)\<close>: row \<open>i\<close> takes the value of row \<open>i + k\<close>; the last \<open>k\<close> rows get NaN.\<close>

definition shift_neg :: "nat \<Rightarrow> fval list \<Rightarrow> fval list" where
  "shift_neg k xs = drop k xs @ replicate (min k (length xs)) NaN"

text \<open>
  \<open>Series.rolling(w).mean()\<close>: the mean of the \<open>w\<close> values ending at row \<open>i\<close>; NaN when
  fewer than \<open>w\<close> rows are there or one of them is NaN (\<open>min_periods\<close> defaults to \<open>w\<close>).
\<close>

definition rolling_mean :: "nat \<Rightarrow> fval list \<Rightarrow> fval list" where
  "rolling_mean w xs =
     map (\<lambda>i. let win = take w (drop (i + 1 - w) xs) in
               if i + 1 < w \<or> NaN \<in> set win then NaN
               else fdiv (fsum win) (Fin (real w)))
         [0..<length xs]"

section \<open>The primary strategy\<close>

subsection \<open>Feature engineering\<close>

text \<open>
  The indicator library (talib and qtpylib) is not part of the repository: its functions
  are parameters. Each returns a Series on the frame's index.
\<close>

record bands =
  bb_lower :: "fval list"
  bb_mid :: "fval list"
  bb_upper :: "fval list"

record indicator_lib =
  ta_RSI :: "dataframe \<Rightarrow> nat \<Rightarrow> fval list"
  ta_MFI :: "dataframe \<Rightarrow> nat \<Rightarrow> fval list"
  ta_ADX :: "dataframe \<Rightarrow> nat \<Rightarrow> fval list"
  ta_EMA :: "dataframe \<Rightarrow> nat \<Rightarrow> fval list"
  ta_ROC :: "dataframe \<Rightarrow> nat \<Rightarrow> fval list"
  ta_STOCHRSI :: "dataframe \<Rightarrow> nat \<Rightarrow> nat \<Rightarrow> nat \<Rightarrow> fval list \<times> fval list"
  typical_price :: "dataframe \<Rightarrow> fval list"
  bollinger_bands :: "fval list \<Rightarrow> nat \<Rightarrow> real \<Rightarrow> bands"

type_synonym metadata = "string \<rightharpoonup> string"

text \<open>
  \<open>feature_engineering_expand_all\<close> is one straight run of column assignments; it is
  written here as the four blocks its comments mark. The first block: RSI, MFI, ADX and
  the moving averages (both slots are filled from \<open>ta.EMA\<close>).
\<close>

definition expand_oscillators :: "indicator_lib \<Rightarrow> dataframe \<Rightarrow> nat \<Rightarrow> dataframe" where
  "expand_oscillators lib df period =
     (let d1 = set_col df ''%-rsi-period'' (ta_RSI lib df period);
          d2 = set_col d1 ''%-mfi-period'' (ta_MFI lib d1 period);
          d3 = set_col d2 ''%-adx-period'' (ta_ADX lib d2 period);
          d4 = set_col d3 ''%-sma-period'' (ta_EMA lib d3 period)
      in set_col d4 ''%-ema-period'' (ta_EMA lib d4 period))"

text \<open>The Bollinger bands, their width ratio and the close over the lower band.\<close>

definition expand_bollinger :: "indicator_lib \<Rightarrow> dataframe \<Rightarrow> nat \<Rightarrow> error + dataframe" where
  "expand_bollinger lib df period =
     (let bollinger = bollinger_bands lib (typical_price lib df) period 2.2;
          d1 = set_col df ''bb_lowerband-period'' (bb_lower bollinger);
          d2 = set_col d1 ''bb_middleband-period'' (bb_mid bollinger);
          d3 = set_col d2 ''bb_upperband-period'' (bb_upper bollinger);
          d4 = set_col d3 ''%-bb_width-period''
                 (series_div
                    (series_sub (col d3 ''bb_upperband-period'') (col d3 ''bb_lowerband-period''))
                    (col d3 ''bb_middleband-period''))
      in if \<not> has_col d4 ''close'' then Inl (KeyError ''close'')
         else Inr (set_col d4 ''%-close-bb_lower-period''
                     (series_div (col d4 ''close'') (col d4 ''bb_lowerband-period''))))"

text \<open>The rate of change and the relative volume.\<close>

definition expand_volume :: "indicator_lib \<Rightarrow> dataframe \<Rightarrow> nat \<Rightarrow> error + dataframe" where
  "expand_volume lib df period =
     (let d1 = set_col df ''%-roc-period'' (ta_ROC lib df period)
      in if \<not> has_col d1 ''volume'' then Inl (KeyError ''volume'')
         else Inr (set_col d1 ''%-relative_volume-period''
                     (series_div (col d1 ''volume'')
                        (rolling_mean period (col d1 ''volume'')))))"

text \<open>The stochastic RSI.\<close>

definition expand_stochrsi :: "indicator_lib \<Rightarrow> dataframe \<Rightarrow> nat \<Rightarrow> dataframe" where
  "expand_stochrsi lib df period =
     (let stochrsi = ta_STOCHRSI lib df 14 period 3;
          d1 = set_col df ''%-stochrsi_k-period'' (fst stochrsi)
      in set_col d1 ''%-stochrsi_d-period'' (snd stochrsi))"

definition feature_engineering_expand_all ::
  "indicator_lib \<Rightarrow> dataframe \<Rightarrow> nat \<Rightarrow> metadata \<Rightarrow> error + dataframe" where
  "feature_engineering_expand_all lib df period md =
     (case expand_bollinger lib (expand_oscillators lib df period) period of
        Inl e \<Rightarrow> Inl e
      | Inr d \<Rightarrow>
         (case expand_volume lib d period of
            Inl e \<Rightarrow> Inl e
          | Inr d' \<Rightarrow> Inr (expand_stochrsi lib d' period)))"

subsection \<open>Target labelling\<close>

text \<open>
  \<open>self.freqai_info["feature_parameters"]["label_period_candles"]\<close>: the configuration
  is a dictionary of dictionaries; a key that is not there raises \<open>KeyError\<close>.
\<close>

type_synonym freqai_info = "string \<rightharpoonup> (string \<rightharpoonup> nat)"

definition set_freqai_targets ::
  "freqai_info \<Rightarrow> dataframe \<Rightarrow> metadata \<Rightarrow> error + dataframe" where
  "set_freqai_targets info df md =
     (case info ''feature_parameters'' of
        None \<Rightarrow> Inl (KeyError ''feature_parameters'')
      | Some fp \<Rightarrow>
         (case fp ''label_period_candles'' of
            None \<Rightarrow> Inl (KeyError ''label_period_candles'')
          | Some label_period \<Rightarrow>
             if \<not> has_col df ''close'' then Inl (KeyError ''close'')
             else Inr (set_col df ''&-s_close''
                    (series_sub_c
                       (series_div
                          (rolling_mean label_period (shift_neg label_period (col df ''close'')))
                          (col df ''close''))
                       (Fin 1)))))"

subsection \<open>Signal fusion\<close>

definition enter_long_conditions :: "dataframe \<Rightarrow> bool list list" where
  "enter_long_conditions df =
     [series_eq_c (col df ''do_predict'') (Fin 1),
      series_gt_c (col df ''&-s_close'') (Fin 0.0001),
      mask_or (series_gt (col df ''EMA_12'') (col df ''EMA_26''))
              (series_lt_c (col df ''RSI_14'') (Fin 35)),
      series_gt_c (col df ''bb_width'') (Fin 0.015),
      series_gt_c (col df ''volume'') (Fin 0)]"

definition populate_entry_trend :: "dataframe \<Rightarrow> metadata \<Rightarrow> error + dataframe" where
  "populate_entry_trend df md =
     (case missing_col df [''do_predict'', ''&-s_close'', ''EMA_12'', ''EMA_26'', ''RSI_14'',
                           ''bb_width'', ''volume''] of
        Some c \<Rightarrow> Inl (KeyError c)
      | None \<Rightarrow>
         if enter_long_conditions df \<noteq> [] then
           Inr (loc_set_tag
                  (loc_set_val df (reduce mask_and (enter_long_conditions df)) ''enter_long'' (Fin 1))
                  (reduce mask_and (enter_long_conditions df)) ''enter_tag'' ''ml_long'')
         else Inr df)"

definition exit_long_conditions :: "dataframe \<Rightarrow> bool list list" where
  "exit_long_conditions df =
     [series_eq_c (col df ''do_predict'') (Fin 1),
      mask_or (series_lt_c (col df ''&-s_close'') (Fin (- 0.005)))
              (series_gt_c (col df ''RSI_14'') (Fin 80))]"

definition exit_short_conditions :: "dataframe \<Rightarrow> bool list list" where
  "exit_short_conditions df =
     [series_eq_c (col df ''do_predict'') (Fin 1),
      mask_or (series_gt_c (col df ''&-s_close'') (Fin 0.005))
              (series_lt_c (col df ''RSI_14'') (Fin 20))]"

definition populate_exit_trend :: "dataframe \<Rightarrow> metadata \<Rightarrow> error + dataframe" where
  "populate_exit_trend df md =
     (case missing_col df [''do_predict'', ''&-s_close'', ''RSI_14''] of
        Some c \<Rightarrow> Inl (KeyError c)
      | None \<Rightarrow>
         let d1 = (if exit_long_conditions df \<noteq> [] then
                     loc_set_val df (reduce mask_and (exit_long_conditions df)) ''exit_long'' (Fin 1)
                   else df);
             d2 = (if exit_short_conditions d1 \<noteq> [] then
                     loc_set_val d1 (reduce mask_and (exit_short_conditions d1)) ''exit_short'' (Fin 1)
                   else d1)
         in Inr d2)"

section \<open>The trade guard of the primary strategy\<close>

definition timeframe :: string where
  "timeframe = ''5m''"

definition startup_candle_count :: nat where
  "startup_candle_count = 800"

record trade =
  is_short :: bool

text \<open>
  \<open>confirm_trade_entry\<close>: the data provider \<open>dp\<close> stands for
  \<open>self.dp.get_analyzed_dataframe\<close>; \<open>last_candle\<close> is \<open>dataframe.iloc[-1]\<close>.
\<close>

definition confirm_trade_entry ::
  "(string \<Rightarrow> string \<Rightarrow> dataframe) \<Rightarrow> string \<Rightarrow> string \<Rightarrow> fval \<Rightarrow> fval \<Rightarrow> string \<Rightarrow> nat
     \<Rightarrow> string option \<Rightarrow> string \<Rightarrow> error + bool" where
  "confirm_trade_entry dp pair order_type amount rate time_in_force current_time entry_tag side =
     (let dataframe = dp pair timeframe in
      if length (rows dataframe) < 1 then Inr False
      else
        let last_candle = last (rows dataframe) in
        if \<not> has_col dataframe ''close'' then Inl (KeyError ''close'')
        else if side = ''long'' then
          (if fgt rate (fmul (val last_candle ''close'') (Fin 1.0025)) then Inr False
           else Inr True)
        else
          (if flt rate (fmul (val last_candle ''close'') (Fin 0.9975)) then Inr False
           else Inr True))"

text \<open>\<open>custom_exit\<close>: \<open>None\<close> is Python's \<open>None\<close>, no override.\<close>

definition custom_exit ::
  "(string \<Rightarrow> string \<Rightarrow> dataframe) \<Rightarrow> string \<Rightarrow> trade \<Rightarrow> nat \<Rightarrow> fval \<Rightarrow> fval
     \<Rightarrow> error + string option" where
  "custom_exit dp pair trd current_time current_rate current_profit =
     (let dataframe = dp pair timeframe in
      if length (rows dataframe) < 1 then Inr None
      else
        let last_candle = last (rows dataframe) in
        if \<not> has_col dataframe ''do_predict'' then Inl (KeyError ''do_predict'')
        else if fne (val last_candle ''do_predict'') (Fin 1) then Inr (Some ''ml_confidence_lost'')
        else if fgt current_profit (Fin 0.02) then
          (if is_short trd then
             (if \<not> has_col dataframe ''&-s_close'' then Inl (KeyError ''&-s_close'')
              else if fgt (val last_candle ''&-s_close'') (Fin 0) then Inr (Some ''ml_reversal_short'')
              else Inr None)
           else
             (if \<not> has_col dataframe ''&-s_close'' then Inl (KeyError ''&-s_close'')
              else if flt (val last_candle ''&-s_close'') (Fin 0) then Inr (Some ''ml_reversal_long'')
              else Inr None))
        else Inr None)"

section \<open>The Hybrid strategy\<close>

text \<open>
  The Hybrid strategy wraps an instance of \<open>NostalgiaForInfinityX7\<close>, which is not part
  of these sources: its two signal passes are parameters. The hyperoptable parameters are
  read through \<open>.value\<close>; the log line of \<open>populate_entry_trend\<close> does not change the
  frame and is left out.
\<close>

record wrapped_strategy =
  x7_populate_entry_trend :: "dataframe \<Rightarrow> metadata \<Rightarrow> error + dataframe"
  x7_populate_exit_trend :: "dataframe \<Rightarrow> metadata \<Rightarrow> error + dataframe"

record hybrid_params =
  ml_confidence_long :: real
  ml_confidence_short :: real
  ml_exit_confidence_threshold :: real

definition can_short :: bool where
  "can_short = True"

definition ml_exit_on_confidence_loss :: bool where
  "ml_exit_on_confidence_loss = True"

definition hybrid_set_freqai_targets :: "dataframe \<Rightarrow> metadata \<Rightarrow> error + dataframe" where
  "hybrid_set_freqai_targets df md =
     (if \<not> has_col df ''close'' then Inl (KeyError ''close'')
      else Inr (set_col df ''&-s_close'' (rolling_mean 5 (shift_neg 24 (col df ''close'')))))"

text \<open>\<open>(dataframe['&-s_close'] - dataframe['close']) / dataframe['close']\<close>\<close>

definition ml_upside_series :: "dataframe \<Rightarrow> fval list" where
  "ml_upside_series df =
     series_div (series_sub (col df ''&-s_close'') (col df ''close'')) (col df ''close'')"

text \<open>The body of \<open>populate_entry_trend\<close> after the wrapped strategy has run.\<close>

definition ml_filter_entries :: "hybrid_params \<Rightarrow> dataframe \<Rightarrow> error + dataframe" where
  "ml_filter_entries params dataframe =
     (if has_col dataframe ''&-s_close'' \<and> has_col dataframe ''do_predict'' then
        (if \<not> has_col dataframe ''close'' then Inl (KeyError ''close'')
         else
           let d1 = set_col dataframe ''ml_upside'' (ml_upside_series dataframe);
               conditions_ml_long =
                 mask_and (series_eq_c (col d1 ''do_predict'') (Fin 1))
                   (series_gt_c (col d1 ''ml_upside'')
                      (fdiv (Fin (ml_confidence_long params)) (Fin 100.0)));
               d2 = (if has_col d1 ''enter_long''
                        \<and> fgt (series_sum (col d1 ''enter_long'')) (Fin 0)
                     then loc_set_val d1 (mask_not conditions_ml_long) ''enter_long'' (Fin 0)
                     else d1);
               d3 = (if can_short \<and> has_col d2 ''enter_short'' then
                       let conditions_ml_short =
                             mask_and (series_eq_c (col d2 ''do_predict'') (Fin 1))
                               (series_lt_c (col d2 ''ml_upside'')
                                  (fdiv (fneg (Fin (ml_confidence_short params))) (Fin 100.0)))
                       in if fgt (series_sum (col d2 ''enter_short'')) (Fin 0)
                          then loc_set_val d2 (mask_not conditions_ml_short) ''enter_short'' (Fin 0)
                          else d2
                     else d2)
           in Inr d3)
      else Inr dataframe)"

definition hybrid_populate_entry_trend ::
  "wrapped_strategy \<Rightarrow> hybrid_params \<Rightarrow> dataframe \<Rightarrow> metadata \<Rightarrow> error + dataframe" where
  "hybrid_populate_entry_trend x7 params df md =
     (case x7_populate_entry_trend x7 df md of
        Inl e \<Rightarrow> Inl e
      | Inr dataframe \<Rightarrow> ml_filter_entries params dataframe)"

text \<open>The body of \<open>populate_exit_trend\<close> after the wrapped strategy has run.\<close>

definition ml_force_exits :: "hybrid_params \<Rightarrow> dataframe \<Rightarrow> error + dataframe" where
  "ml_force_exits params dataframe =
     (if ml_exit_on_confidence_loss \<and> has_col dataframe ''&-s_close'' then
        (if \<not> has_col dataframe ''ml_upside'' \<and> \<not> has_col dataframe ''close''
         then Inl (KeyError ''close'')
         else
           let d1 = (if \<not> has_col dataframe ''ml_upside''
                     then set_col dataframe ''ml_upside'' (ml_upside_series dataframe)
                     else dataframe)
           in if \<not> has_col d1 ''do_predict'' then Inl (KeyError ''do_predict'')
              else
                let conditions_ml_exit_long =
                      mask_and (series_eq_c (col d1 ''do_predict'') (Fin 1))
                        (series_lt_c (col d1 ''ml_upside'')
                           (fdiv (Fin (ml_exit_confidence_threshold params)) (Fin 100.0)));
                    d2 = (if has_col d1 ''exit_long'' then
                            loc_set_tag
                              (loc_set_val d1 conditions_ml_exit_long ''exit_long'' (Fin 1))
                              conditions_ml_exit_long ''exit_tag'' ''ml_confidence_lost''
                          else d1);
                    d3 = (if can_short \<and> has_col d2 ''exit_short'' then
                            let conditions_ml_exit_short =
                                  mask_and (series_eq_c (col d2 ''do_predict'') (Fin 1))
                                    (series_gt_c (col d2 ''ml_upside'')
                                       (fdiv (fneg (Fin (ml_exit_confidence_threshold params)))
                                          (Fin 100.0)))
                            in loc_set_tag
                                 (loc_set_val d2 conditions_ml_exit_short ''exit_short'' (Fin 1))
                                 conditions_ml_exit_short ''exit_tag'' ''ml_confidence_lost_short''
                          else d2)
                in Inr d3)
      else Inr dataframe)"

definition hybrid_populate_exit_trend ::
  "wrapped_strategy \<Rightarrow> hybrid_params \<Rightarrow> dataframe \<Rightarrow> metadata \<Rightarrow> error + dataframe" where
  "hybrid_populate_exit_trend x7 params df md =
     (case x7_populate_exit_trend x7 df md of
        Inl e \<Rightarrow> Inl e
      | Inr dataframe \<Rightarrow> ml_force_exits params dataframe)"

text \<open>
  The upside the exit pass compares: the \<open>ml_upside\<close> column when the frame already has
  one (the entry pass wrote it), the freshly computed Series otherwise.
\<close>

definition upside_used :: "dataframe \<Rightarrow> nat \<Rightarrow> fval" where
  "upside_used w i = (if has_col w ''ml_upside'' then val (rows w ! i) ''ml_upside''
                      else ml_upside_series w ! i)"

section \<open>Example frames\<close>

text \<open>A row from a list of numeric cells; every other cell is missing.\<close>

definition mk_row :: "(string \<times> fval) list \<Rightarrow> row" where
  "mk_row kvs =
     \<lparr>val = (\<lambda>c. case map_of kvs c of Some v \<Rightarrow> v | None \<Rightarrow> NaN), tag = (\<lambda>c. None)\<rparr>"

definition mk_frame :: "string list \<Rightarrow> fval list list \<Rightarrow> dataframe" where
  "mk_frame cs vss = \<lparr>columns = cs, rows = map (\<lambda>vs. mk_row (zip cs vs)) vss\<rparr>"

definition one_candle :: "real \<Rightarrow> dataframe" where
  "one_candle c = mk_frame [''close''] [[Fin c]]"

definition no_candles :: dataframe where
  "no_candles = mk_frame [''close''] []"

definition prediction_candle :: "real \<Rightarrow> real \<Rightarrow> dataframe" where
  "prediction_candle flag p = mk_frame [''do_predict'', ''&-s_close''] [[Fin flag, Fin p]]"

text \<open>The cell and the tag a caller reads off a result; \<open>None\<close> when the pass raised.\<close>

definition result_cell :: "error + dataframe \<Rightarrow> nat \<Rightarrow> string \<Rightarrow> fval option" where
  "result_cell res i c = (case res of Inl e \<Rightarrow> None | Inr d \<Rightarrow> cell d i c)"

definition result_tag :: "error + dataframe \<Rightarrow> nat \<Rightarrow> string \<Rightarrow> string option" where
  "result_tag res i c = (case res of Inl e \<Rightarrow> None | Inr d \<Rightarrow> tag_cell d i c)"

text \<open>A wrapped strategy whose signals are already in the frame, and the default parameters.\<close>

definition wrapped_id :: wrapped_strategy where
  "wrapped_id = \<lparr>x7_populate_entry_trend = (\<lambda>df md. Inr df),
                 x7_populate_exit_trend = (\<lambda>df md. Inr df)\<rparr>"

definition default_params :: hybrid_params where
  "default_params = \<lparr>ml_confidence_long = 0.60, ml_confidence_short = 0.60,
                      ml_exit_confidence_threshold = 0.45\<rparr>"

definition overlap_frame :: dataframe where
  "overlap_frame =
     mk_frame [''close'', ''&-s_close'', ''do_predict'', ''exit_long'', ''exit_short'']
       [[Fin 100, Fin 100, Fin 1, Fin 0, Fin 0],
        [Fin 100, Fin 90, Fin 1, Fin 0, Fin 1],
        [Fin 100, Fin 90, Fin 0, Fin 1, Fin 0]]"

definition entry_frame :: dataframe where
  "entry_frame =
     mk_frame [''do_predict'', ''&-s_close'', ''EMA_12'', ''EMA_26'', ''RSI_14'', ''bb_width'',
               ''volume'', ''close'']
       [[Fin 1, Fin 0.01, Fin 101, Fin 100, Fin 50, Fin 0.02, Fin 10, Fin 100],
        [Fin 0, Fin 0.01, Fin 101, Fin 100, Fin 50, Fin 0.02, Fin 10, Fin 100]]"

definition filter_frame :: dataframe where
  "filter_frame =
     mk_frame [''close'', ''&-s_close'', ''do_predict'', ''enter_long'', ''enter_short'']
       [[Fin 100, Fin 101, Fin 1, Fin 1, Fin 0],
        [Fin 100, Fin 100.5, Fin 1, Fin 1, Fin 0],
        [Fin 100, Fin 101, Fin 0, Fin 1, Fin 0],
        [Fin 100, Fin 101, Fin 1, Fin 1, Fin 0],
        [Fin 100, Fin 100.5, Fin 1, Fin 1, Fin 0],
        [Fin 100, Fin 101, Fin 0, Fin 1, Fin 0],
        [Fin 100, Fin 101, Fin 1, Fin 1, Fin 0],
        [Fin 100, Fin 100.5, Fin 1, Fin 1, Fin 0],
        [Fin 100, Fin 101, Fin 0, Fin 1, Fin 0],
        [Fin 100, Fin 101, Fin 1, Fin 1, Fin 0]]"

definition signal_frame :: dataframe where
  "signal_frame =
     mk_frame [''do_predict'', ''&-s_close'', ''EMA_12'', ''EMA_26'', ''RSI_14'', ''bb_width'',
               ''volume'', ''close'', ''enter_long'', ''enter_short'', ''exit_long'', ''exit_short'']
       [[Fin 1, Fin 101, Fin 101, Fin 100, Fin 50, Fin 0.02, Fin 10, Fin 100,
         Fin 1, Fin 0, Fin 0, Fin 0],
        [Fin 0, Fin 101, Fin 101, Fin 100, Fin 90, Fin 0.02, Fin 10, Fin 100,
         Fin 1, Fin 1, Fin 0, Fin 0]]"

definition freqai_info_of :: "nat \<Rightarrow> freqai_info" where
  "freqai_info_of H =
     [''feature_parameters'' \<mapsto> [''label_period_candles'' \<mapsto> H]]"

definition ramp_frame :: dataframe where
  "ramp_frame = mk_frame [''close''] [[Fin 1], [Fin 2], [Fin 3], [Fin 4]]"

definition flat_frame :: dataframe where
  "flat_frame = mk_frame [''close''] (replicate 29 [Fin 100])"

text \<open>An indicator library whose lower band is 0 on a candle that closed at 5.\<close>

definition zero_band_lib :: indicator_lib where
  "zero_band_lib =
     \<lparr>ta_RSI = (\<lambda>df p. [NaN]), ta_MFI = (\<lambda>df p. [NaN]), ta_ADX = (\<lambda>df p. [NaN]),
      ta_EMA = (\<lambda>df p. [Fin 5]), ta_ROC = (\<lambda>df p. [NaN]),
      ta_STOCHRSI = (\<lambda>df p k d. ([NaN], [NaN])),
      typical_price = (\<lambda>df. [Fin 5]),
      bollinger_bands = (\<lambda>tp window stds. \<lparr>bb_lower = [Fin 0], bb_mid = [Fin 5], bb_upper = [Fin 10]\<rparr>)\<rparr>"

definition price_frame :: dataframe where
  "price_frame = mk_frame [''close'', ''volume''] [[Fin 5, Fin 0]]"

section \<open>Frames: basic facts\<close>

lemma length_col [simp]: "length (col df c) = length (rows df)"
  by (simp add: col_def)

lemma nth_col [simp]: "i < length (rows df) \<Longrightarrow> col df c ! i = val (rows df ! i) c"
  by (simp add: col_def)

lemma in_add_col [simp]: "c' \<in> set (add_col cs c) \<longleftrightarrow> c' = c \<or> c' \<in> set cs"
  by (auto simp: add_col_def)

lemma length_rows_set_col [simp]: "length (rows (set_col df c xs)) = length (rows df)"
  by (simp add: set_col_def)

lemma length_rows_loc_set_val [simp]: "length (rows (loc_set_val df sel c v)) = length (rows df)"
  by (simp add: loc_set_val_def)

lemma length_rows_loc_set_tag [simp]: "length (rows (loc_set_tag df sel c s)) = length (rows df)"
  by (simp add: loc_set_tag_def)

lemma has_col_set_col [simp]: "has_col (set_col df c xs) c' \<longleftrightarrow> c' = c \<or> has_col df c'"
  by (simp add: set_col_def has_col_def)

lemma has_col_loc_set_val [simp]:
  "has_col (loc_set_val df sel c v) c' \<longleftrightarrow> c' = c \<or> has_col df c'"
  by (simp add: loc_set_val_def has_col_def)

lemma has_col_loc_set_tag [simp]:
  "has_col (loc_set_tag df sel c s) c' \<longleftrightarrow> c' = c \<or> has_col df c'"
  by (simp add: loc_set_tag_def has_col_def)

lemma nth_rows_set_col:
  "i < length (rows df) \<Longrightarrow>
   rows (set_col df c xs) ! i =
     (rows df ! i)\<lparr>val := (val (rows df ! i))(c := (if i < length xs then xs ! i else NaN))\<rparr>"
  by (simp add: set_col_def)

lemma nth_rows_loc_set_val:
  "i < length (rows df) \<Longrightarrow>
   rows (loc_set_val df sel c v) ! i =
     (rows df ! i)\<lparr>val := (val (rows df ! i))(c :=
        (if i < length sel \<and> sel ! i then v
         else if has_col df c then val (rows df ! i) c else NaN))\<rparr>"
  by (simp add: loc_set_val_def)

lemma nth_rows_loc_set_tag:
  "i < length (rows df) \<Longrightarrow>
   rows (loc_set_tag df sel c s) ! i =
     (rows df ! i)\<lparr>tag := (tag (rows df ! i))(c :=
        (if i < length sel \<and> sel ! i then Some s
         else if has_col df c then tag (rows df ! i) c else None))\<rparr>"
  by (simp add: loc_set_tag_def)

lemma col_set_col_other: "c' \<noteq> c \<Longrightarrow> col (set_col df c xs) c' = col df c'"
  by (rule nth_equalityI) (simp_all add: nth_rows_set_col)

lemma col_set_col_same:
  "length xs = length (rows df) \<Longrightarrow> col (set_col df c xs) c = xs"
  by (rule nth_equalityI) (simp_all add: nth_rows_set_col)

lemma col_loc_set_val_other: "c' \<noteq> c \<Longrightarrow> col (loc_set_val df sel c v) c' = col df c'"
  by (rule nth_equalityI) (simp_all add: nth_rows_loc_set_val)

lemma col_loc_set_tag: "col (loc_set_tag df sel c s) c' = col df c'"
  by (rule nth_equalityI) (simp_all add: nth_rows_loc_set_tag)

lemma cell_set_col:
  "cell (set_col df c xs) i c' =
     (if c' = c then (if i < length (rows df) then Some (if i < length xs then xs ! i else NaN) else None)
      else cell df i c')"
  by (simp add: cell_def nth_rows_set_col)

lemma cell_loc_set_val:
  "cell (loc_set_val df sel c v) i c' =
     (if c' = c then
        (if i < length (rows df) then
           Some (if i < length sel \<and> sel ! i then v
                 else (case cell df i c of Some x \<Rightarrow> x | None \<Rightarrow> NaN))
         else None)
      else cell df i c')"
  by (simp add: cell_def nth_rows_loc_set_val)

lemma cell_loc_set_tag: "c' \<noteq> c \<Longrightarrow> cell (loc_set_tag df sel c s) i c' = cell df i c'"
  by (simp add: cell_def nth_rows_loc_set_tag)

lemma tag_cell_loc_set_val: "c' \<noteq> c \<Longrightarrow> tag_cell (loc_set_val df sel c v) i c' = tag_cell df i c'"
  by (simp add: tag_cell_def nth_rows_loc_set_val)

lemma tag_cell_set_col: "c' \<noteq> c \<Longrightarrow> tag_cell (set_col df c xs) i c' = tag_cell df i c'"
  by (simp add: tag_cell_def nth_rows_set_col)

lemma tag_cell_loc_set_tag:
  "tag_cell (loc_set_tag df sel c s) i c' =
     (if c' = c then
        (if i < length (rows df) then
           (if i < length sel \<and> sel ! i then Some s else tag_cell df i c)
         else None)
      else tag_cell df i c')"
  by (simp add: tag_cell_def nth_rows_loc_set_tag)

lemma length_series [simp]:
  "length (series_gt xs ys) = min (length xs) (length ys)"
  "length (series_gt_c xs c) = length xs"
  "length (series_lt_c xs c) = length xs"
  "length (series_eq_c xs c) = length xs"
  "length (series_sub xs ys) = min (length xs) (length ys)"
  "length (series_sub_c xs c) = length xs"
  "length (series_div xs ys) = min (length xs) (length ys)"
  "length (mask_and bs cs) = min (length bs) (length cs)"
  "length (mask_or bs cs) = min (length bs) (length cs)"
  "length (mask_not bs) = length bs"
  by (simp_all add: series_gt_def series_gt_c_def series_lt_c_def series_eq_c_def series_sub_def
      series_sub_c_def series_div_def mask_and_def mask_or_def mask_not_def)

lemma nth_series [simp]:
  "i < length xs \<Longrightarrow> i < length ys \<Longrightarrow> series_gt xs ys ! i = fgt (xs ! i) (ys ! i)"
  "i < length xs \<Longrightarrow> series_gt_c xs c ! i = fgt (xs ! i) c"
  "i < length xs \<Longrightarrow> series_lt_c xs c ! i = flt (xs ! i) c"
  "i < length xs \<Longrightarrow> series_eq_c xs c ! i = feq (xs ! i) c"
  "i < length xs \<Longrightarrow> i < length ys \<Longrightarrow> series_sub xs ys ! i = fsub (xs ! i) (ys ! i)"
  "i < length xs \<Longrightarrow> series_sub_c xs c ! i = fsub (xs ! i) c"
  "i < length xs \<Longrightarrow> i < length ys \<Longrightarrow> series_div xs ys ! i = fdiv (xs ! i) (ys ! i)"
  "i < length bs \<Longrightarrow> i < length cs \<Longrightarrow> mask_and bs cs ! i = (bs ! i \<and> cs ! i)"
  "i < length bs \<Longrightarrow> i < length cs \<Longrightarrow> mask_or bs cs ! i = (bs ! i \<or> cs ! i)"
  "i < length bs \<Longrightarrow> mask_not bs ! i = (\<not> bs ! i)"
  by (simp_all add: series_gt_def series_gt_c_def series_lt_c_def series_eq_c_def series_sub_def
      series_sub_c_def series_div_def mask_and_def mask_or_def mask_not_def)

lemma missing_col_None: "missing_col df cs = None \<longleftrightarrow> (\<forall>c \<in> set cs. has_col df c)"
  by (auto simp: missing_col_def find_None_iff)

section \<open>The primary strategy's masks\<close>

lemma length_entry_mask [simp]:
  "length (reduce mask_and (enter_long_conditions df)) = length (rows df)"
  by (simp add: enter_long_conditions_def reduce_def)

lemma nth_entry_mask:
  "i < length (rows df) \<Longrightarrow>
   reduce mask_and (enter_long_conditions df) ! i =
     (feq (val (rows df ! i) ''do_predict'') (Fin 1)
      \<and> fgt (val (rows df ! i) ''&-s_close'') (Fin 0.0001)
      \<and> (fgt (val (rows df ! i) ''EMA_12'') (val (rows df ! i) ''EMA_26'')
           \<or> flt (val (rows df ! i) ''RSI_14'') (Fin 35))
      \<and> fgt (val (rows df ! i) ''bb_width'') (Fin 0.015)
      \<and> fgt (val (rows df ! i) ''volume'') (Fin 0))"
  by (simp add: enter_long_conditions_def reduce_def)

lemma populate_entry_trend_Inr:
  assumes "\<forall>c \<in> set [''do_predict'', ''&-s_close'', ''EMA_12'', ''EMA_26'', ''RSI_14'',
                       ''bb_width'', ''volume'']. has_col df c"
  shows "populate_entry_trend df md =
     Inr (loc_set_tag
            (loc_set_val df (reduce mask_and (enter_long_conditions df)) ''enter_long'' (Fin 1))
            (reduce mask_and (enter_long_conditions df)) ''enter_tag'' ''ml_long'')"
proof -
  have "missing_col df [''do_predict'', ''&-s_close'', ''EMA_12'', ''EMA_26'', ''RSI_14'',
                        ''bb_width'', ''volume''] = None"
    using assms by (simp only: missing_col_None)
  then show ?thesis
    by (simp add: populate_entry_trend_def enter_long_conditions_def)
qed

lemma length_exit_masks [simp]:
  "length (reduce mask_and (exit_long_conditions df)) = length (rows df)"
  "length (reduce mask_and (exit_short_conditions df)) = length (rows df)"
  by (simp_all add: exit_long_conditions_def exit_short_conditions_def reduce_def)

lemma nth_exit_long_mask:
  "i < length (rows df) \<Longrightarrow>
   reduce mask_and (exit_long_conditions df) ! i =
     (feq (val (rows df ! i) ''do_predict'') (Fin 1)
      \<and> (flt (val (rows df ! i) ''&-s_close'') (Fin (- 0.005))
           \<or> fgt (val (rows df ! i) ''RSI_14'') (Fin 80)))"
  by (simp add: exit_long_conditions_def reduce_def)

lemma nth_exit_short_mask:
  "i < length (rows df) \<Longrightarrow>
   reduce mask_and (exit_short_conditions df) ! i =
     (feq (val (rows df ! i) ''do_predict'') (Fin 1)
      \<and> (fgt (val (rows df ! i) ''&-s_close'') (Fin 0.005)
           \<or> flt (val (rows df ! i) ''RSI_14'') (Fin 20)))"
  by (simp add: exit_short_conditions_def reduce_def)

lemma exit_short_conditions_loc_set_val:
  "exit_short_conditions (loc_set_val df sel ''exit_long'' v) = exit_short_conditions df"
  by (simp add: exit_short_conditions_def col_loc_set_val_other)

lemma populate_exit_trend_Inr:
  assumes "\<forall>c \<in> set [''do_predict'', ''&-s_close'', ''RSI_14'']. has_col df c"
  shows "populate_exit_trend df md =
     Inr (loc_set_val
            (loc_set_val df (reduce mask_and (exit_long_conditions df)) ''exit_long'' (Fin 1))
            (reduce mask_and (exit_short_conditions df)) ''exit_short'' (Fin 1))"
proof -
  have "missing_col df [''do_predict'', ''&-s_close'', ''RSI_14''] = None"
    using assms by (simp only: missing_col_None)
  then show ?thesis
    by (simp add: populate_exit_trend_def Let_def exit_short_conditions_loc_set_val)
       (simp add: exit_long_conditions_def exit_short_conditions_def)
qed

section \<open>The Hybrid strategy, cell by cell\<close>

lemma foldl_fadd_boolean:
  "\<forall>x \<in> set xs. x = Fin 0 \<or> x = Fin 1 \<or> x = NaN \<Longrightarrow>
   foldl fadd (Fin a) (filter (\<lambda>x. x \<noteq> NaN) xs) = Fin (a + real (length (filter (\<lambda>x. x = Fin 1) xs)))"
  by (induction xs arbitrary: a) auto

lemma series_sum_boolean:
  assumes "\<forall>x \<in> set xs. x = Fin 0 \<or> x = Fin 1 \<or> x = NaN"
  shows "fgt (series_sum xs) (Fin 0) \<longleftrightarrow> Fin 1 \<in> set xs"
proof -
  have "series_sum xs = Fin (real (length (filter (\<lambda>x. x = Fin 1) xs)))"
    using foldl_fadd_boolean [OF assms, of 0] by (simp add: series_sum_def fsum_def)
  moreover have "0 < length (filter (\<lambda>x. x = Fin 1) xs) \<longleftrightarrow> Fin 1 \<in> set xs"
    by (auto simp: filter_empty_conv)
  ultimately show ?thesis by (simp add: fgt_def)
qed

lemma length_ml_upside_series [simp]: "length (ml_upside_series df) = length (rows df)"
  by (simp add: ml_upside_series_def)

lemma nth_ml_upside_series:
  "i < length (rows df) \<Longrightarrow>
   ml_upside_series df ! i =
     fdiv (fsub (val (rows df ! i) ''&-s_close'') (val (rows df ! i) ''close''))
          (val (rows df ! i) ''close'')"
  by (simp add: ml_upside_series_def)

text \<open>The frame after the filter, cell by cell.\<close>

lemma ml_filter_entries_cells:
  assumes "has_col w ''&-s_close''" and "has_col w ''do_predict''" and "has_col w ''close''"
  shows "\<exists>out. ml_filter_entries params w = Inr out
     \<and> length (rows out) = length (rows w)
     \<and> (\<forall>c. has_col out c \<longleftrightarrow> c = ''ml_upside'' \<or> has_col w c)
     \<and> (\<forall>i < length (rows w).
          cell out i ''ml_upside'' = Some (ml_upside_series w ! i)
        \<and> cell out i ''enter_long'' =
            (if has_col w ''enter_long'' \<and> fgt (series_sum (col w ''enter_long'')) (Fin 0)
                \<and> \<not> (feq (val (rows w ! i) ''do_predict'') (Fin 1)
                      \<and> fgt (ml_upside_series w ! i) (fdiv (Fin (ml_confidence_long params)) (Fin 100)))
             then Some (Fin 0) else cell w i ''enter_long'')
        \<and> cell out i ''enter_short'' =
            (if has_col w ''enter_short'' \<and> fgt (series_sum (col w ''enter_short'')) (Fin 0)
                \<and> \<not> (feq (val (rows w ! i) ''do_predict'') (Fin 1)
                      \<and> flt (ml_upside_series w ! i)
                           (fdiv (fneg (Fin (ml_confidence_short params))) (Fin 100)))
             then Some (Fin 0) else cell w i ''enter_short''))"
  using assms
  by (simp add: ml_filter_entries_def Let_def can_short_def col_set_col_other col_set_col_same
      col_loc_set_val_other cell_loc_set_val cell_set_col)
     (auto simp: cell_def)


lemma ml_force_exits_cells:
  assumes "has_col w ''&-s_close''" and "has_col w ''do_predict''"
    and "has_col w ''ml_upside'' \<or> has_col w ''close''"
  shows "\<exists>out. ml_force_exits params w = Inr out
     \<and> length (rows out) = length (rows w)
     \<and> (\<forall>i < length (rows w).
          cell out i ''ml_upside'' = Some (upside_used w i)
        \<and> cell out i ''exit_long'' =
            (if has_col w ''exit_long'' \<and> feq (val (rows w ! i) ''do_predict'') (Fin 1)
                \<and> flt (upside_used w i) (fdiv (Fin (ml_exit_confidence_threshold params)) (Fin 100))
             then Some (Fin 1) else cell w i ''exit_long'')
        \<and> cell out i ''exit_short'' =
            (if has_col w ''exit_short'' \<and> feq (val (rows w ! i) ''do_predict'') (Fin 1)
                \<and> fgt (upside_used w i)
                     (fdiv (fneg (Fin (ml_exit_confidence_threshold params))) (Fin 100))
             then Some (Fin 1) else cell w i ''exit_short'')
        \<and> tag_cell out i ''exit_tag'' =
            (if has_col w ''exit_short'' \<and> feq (val (rows w ! i) ''do_predict'') (Fin 1)
                \<and> fgt (upside_used w i)
                     (fdiv (fneg (Fin (ml_exit_confidence_threshold params))) (Fin 100))
             then Some ''ml_confidence_lost_short''
             else if has_col w ''exit_long'' \<and> feq (val (rows w ! i) ''do_predict'') (Fin 1)
                \<and> flt (upside_used w i) (fdiv (Fin (ml_exit_confidence_threshold params)) (Fin 100))
             then Some ''ml_confidence_lost''
             else tag_cell w i ''exit_tag''))"
proof (cases "has_col w ''ml_upside''")
  case True
  with assms show ?thesis
    by (simp add: ml_force_exits_def Let_def can_short_def ml_exit_on_confidence_loss_def
        col_loc_set_val_other col_loc_set_tag cell_loc_set_val cell_loc_set_tag
        tag_cell_loc_set_val tag_cell_loc_set_tag upside_used_def)
       (auto simp: cell_def tag_cell_def)
next
  case False
  with assms show ?thesis
    by (simp add: ml_force_exits_def Let_def can_short_def ml_exit_on_confidence_loss_def
        col_set_col_other col_set_col_same
        col_loc_set_val_other col_loc_set_tag cell_loc_set_val cell_loc_set_tag cell_set_col
        tag_cell_loc_set_val tag_cell_loc_set_tag tag_cell_set_col upside_used_def)
       (auto simp: cell_def tag_cell_def)
qed

lemma populate_exit_trend_cells:
  assumes "\<forall>c \<in> set [''do_predict'', ''&-s_close'', ''RSI_14'']. has_col df c"
  shows "\<exists>out. populate_exit_trend df md = Inr out
     \<and> length (rows out) = length (rows df)
     \<and> (\<forall>i < length (rows df).
          cell out i ''exit_long'' =
            Some (if feq (val (rows df ! i) ''do_predict'') (Fin 1)
                     \<and> (flt (val (rows df ! i) ''&-s_close'') (Fin (- 0.005))
                          \<or> fgt (val (rows df ! i) ''RSI_14'') (Fin 80))
                  then Fin 1
                  else (case cell df i ''exit_long'' of Some v \<Rightarrow> v | None \<Rightarrow> NaN))
        \<and> cell out i ''exit_short'' =
            Some (if feq (val (rows df ! i) ''do_predict'') (Fin 1)
                     \<and> (fgt (val (rows df ! i) ''&-s_close'') (Fin 0.005)
                          \<or> flt (val (rows df ! i) ''RSI_14'') (Fin 20))
                  then Fin 1
                  else (case cell df i ''exit_short'' of Some v \<Rightarrow> v | None \<Rightarrow> NaN)))"
  unfolding populate_exit_trend_Inr [OF assms]
  by (simp add: cell_loc_set_val nth_exit_long_mask nth_exit_short_mask) blast?

lemma populate_entry_trend_cells:
  assumes "\<forall>c \<in> set [''do_predict'', ''&-s_close'', ''EMA_12'', ''EMA_26'', ''RSI_14'',
                       ''bb_width'', ''volume'']. has_col df c"
  shows "\<exists>out. populate_entry_trend df md = Inr out
     \<and> length (rows out) = length (rows df)
     \<and> (\<forall>i < length (rows df).
          cell out i ''enter_short'' = cell df i ''enter_short''
        \<and> cell out i ''enter_long'' =
            Some (if reduce mask_and (enter_long_conditions df) ! i then Fin 1
                  else (case cell df i ''enter_long'' of Some v \<Rightarrow> v | None \<Rightarrow> NaN))
        \<and> tag_cell out i ''enter_tag'' =
            (if reduce mask_and (enter_long_conditions df) ! i then Some ''ml_long''
             else tag_cell df i ''enter_tag''))"
  unfolding populate_entry_trend_Inr [OF assms]
  by (simp add: cell_loc_set_val cell_loc_set_tag tag_cell_loc_set_tag tag_cell_loc_set_val) blast?

lemma default_params_simps:
  "ml_confidence_long default_params = 0.60" "ml_confidence_short default_params = 0.60"
  "ml_exit_confidence_threshold default_params = 0.45"
  by (simp_all add: default_params_def)

lemma fdiv_Fin_100 [simp]: "fdiv (Fin a) (Fin 100) = Fin (a / 100)"
  by simp

lemma entry_frame_facts:
  "\<forall>c \<in> set [''do_predict'', ''&-s_close'', ''EMA_12'', ''EMA_26'', ''RSI_14'',
               ''bb_width'', ''volume'']. has_col entry_frame c"
  "has_col entry_frame ''close''"
  "length (rows entry_frame) = 2"
  "\<not> has_col entry_frame ''enter_long''" "\<not> has_col entry_frame ''enter_short''"
  "\<not> has_col entry_frame ''enter_tag''"
  "\<not> has_col entry_frame ''exit_long''" "\<not> has_col entry_frame ''exit_short''"
  "\<not> has_col entry_frame ''exit_tag''" "\<not> has_col entry_frame ''ml_upside''"
  "val (rows entry_frame ! 0) ''do_predict'' = Fin 1"
  "val (rows entry_frame ! 0) ''&-s_close'' = Fin 0.01"
  "val (rows entry_frame ! 0) ''EMA_12'' = Fin 101"
  "val (rows entry_frame ! 0) ''EMA_26'' = Fin 100"
  "val (rows entry_frame ! 0) ''RSI_14'' = Fin 50"
  "val (rows entry_frame ! 0) ''bb_width'' = Fin 0.02"
  "val (rows entry_frame ! 0) ''volume'' = Fin 10"
  "val (rows entry_frame ! Suc 0) ''do_predict'' = Fin 0"
  by (simp_all add: entry_frame_def mk_frame_def mk_row_def has_col_def)

lemma overlap_frame_cols:
  "has_col overlap_frame ''&-s_close''" "has_col overlap_frame ''do_predict''"
  "has_col overlap_frame ''ml_upside'' \<or> has_col overlap_frame ''close''"
  "has_col overlap_frame ''exit_long''" "has_col overlap_frame ''exit_short''"
  by (simp_all add: overlap_frame_def mk_frame_def has_col_def)

lemma overlap_frame_rows:
  "0 < length (rows overlap_frame)" "Suc 0 < length (rows overlap_frame)"
  "2 < length (rows overlap_frame)"
  "val (rows overlap_frame ! 0) ''do_predict'' = Fin 1"
  "val (rows overlap_frame ! Suc 0) ''do_predict'' = Fin 1"
  "val (rows overlap_frame ! 2) ''do_predict'' = Fin 0"
  "upside_used overlap_frame 0 = Fin 0"
  "upside_used overlap_frame (Suc 0) = Fin (- 0.1)"
  "upside_used overlap_frame 2 = Fin (- 0.1)"
  "cell overlap_frame 0 ''do_predict'' = Some (Fin 1)"
  "cell overlap_frame (Suc 0) ''exit_short'' = Some (Fin 1)"
  "cell overlap_frame 2 ''exit_long'' = Some (Fin 1)"
  "cell overlap_frame 2 ''exit_short'' = Some (Fin 0)"
  "tag_cell overlap_frame 2 ''exit_tag'' = None"
  by (simp_all add: overlap_frame_def mk_frame_def has_col_def cell_def tag_cell_def mk_row_def
      upside_used_def nth_ml_upside_series fsub_def)

lemma length_filter_pointwise:
  "length xs = length ys \<Longrightarrow> (\<forall>i < length xs. P (xs ! i) \<longleftrightarrow> Q (ys ! i)) \<Longrightarrow>
   length (filter P xs) = length (filter Q ys)"
proof (induction xs ys rule: list_induct2)
  case Nil
  then show ?case by simp
next
  case (Cons x xs y ys)
  from Cons.prems have "P x \<longleftrightarrow> Q y" by auto
  moreover from Cons.prems have "\<forall>i < length xs. P (xs ! i) \<longleftrightarrow> Q (ys ! i)" by auto
  ultimately show ?case using Cons.IH by simp
qed

lemma length_filter_split:
  "length (filter P xs) =
     length (filter (\<lambda>x. P x \<and> Q x) xs) + length (filter (\<lambda>x. P x \<and> \<not> Q x) xs)"
  by (induction xs) auto

lemma fgt_flt_Fin: "fgt u (Fin a) \<Longrightarrow> flt u (Fin b) \<Longrightarrow> a < b"
  by (cases u) (auto simp: fgt_def)

lemma boolean_sum_col:
  assumes "\<forall>r \<in> set (rows w). val r c = Fin 0 \<or> val r c = Fin 1 \<or> val r c = NaN"
  shows "fgt (series_sum (col w c)) (Fin 0) \<longleftrightarrow> (\<exists>i < length (rows w). val (rows w ! i) c = Fin 1)"
proof -
  have "\<forall>x \<in> set (col w c). x = Fin 0 \<or> x = Fin 1 \<or> x = NaN"
    using assms by (auto simp: col_def)
  then have "fgt (series_sum (col w c)) (Fin 0) \<longleftrightarrow> Fin 1 \<in> set (col w c)"
    by (rule series_sum_boolean)
  also have "\<dots> \<longleftrightarrow> (\<exists>i < length (rows w). val (rows w ! i) c = Fin 1)"
    by (simp add: in_set_conv_nth) (metis nth_col)
  finally show ?thesis .
qed

text \<open>What the filter leaves of a 0/1 column of the wrapped strategy.\<close>

lemma ml_filter_entries_marks:
  assumes cols: "has_col w ''&-s_close''" "has_col w ''do_predict''" "has_col w ''close''"
    and bool: "\<forall>c \<in> {''enter_long'', ''enter_short''}. \<forall>r \<in> set (rows w).
                 val r c = Fin 0 \<or> val r c = Fin 1 \<or> val r c = NaN"
  shows "\<exists>out. ml_filter_entries params w = Inr out
     \<and> length (rows out) = length (rows w)
     \<and> (\<forall>c. has_col out c \<longleftrightarrow> c = ''ml_upside'' \<or> has_col w c)
     \<and> (\<forall>i < length (rows w).
          cell out i ''ml_upside'' = Some (ml_upside_series w ! i)
        \<and> (cell out i ''enter_long'' = Some (Fin 1) \<longleftrightarrow>
             cell w i ''enter_long'' = Some (Fin 1)
             \<and> feq (val (rows w ! i) ''do_predict'') (Fin 1)
             \<and> fgt (ml_upside_series w ! i) (fdiv (Fin (ml_confidence_long params)) (Fin 100)))
        \<and> (cell out i ''enter_short'' = Some (Fin 1) \<longleftrightarrow>
             cell w i ''enter_short'' = Some (Fin 1)
             \<and> feq (val (rows w ! i) ''do_predict'') (Fin 1)
             \<and> flt (ml_upside_series w ! i)
                  (fdiv (fneg (Fin (ml_confidence_short params))) (Fin 100)))
        \<and> (cell w i ''enter_long'' = Some (Fin 0) \<longrightarrow> cell out i ''enter_long'' = Some (Fin 0))
        \<and> (cell w i ''enter_short'' = Some (Fin 0) \<longrightarrow> cell out i ''enter_short'' = Some (Fin 0)))"
proof -
  from ml_filter_entries_cells [OF cols, of params] obtain out where
    out: "ml_filter_entries params w = Inr out" "length (rows out) = length (rows w)"
      "\<forall>c. has_col out c \<longleftrightarrow> c = ''ml_upside'' \<or> has_col w c"
    and cells: "\<And>i. i < length (rows w) \<Longrightarrow>
          cell out i ''ml_upside'' = Some (ml_upside_series w ! i)
        \<and> cell out i ''enter_long'' =
            (if has_col w ''enter_long'' \<and> fgt (series_sum (col w ''enter_long'')) (Fin 0)
                \<and> \<not> (feq (val (rows w ! i) ''do_predict'') (Fin 1)
                      \<and> fgt (ml_upside_series w ! i) (fdiv (Fin (ml_confidence_long params)) (Fin 100)))
             then Some (Fin 0) else cell w i ''enter_long'')
        \<and> cell out i ''enter_short'' =
            (if has_col w ''enter_short'' \<and> fgt (series_sum (col w ''enter_short'')) (Fin 0)
                \<and> \<not> (feq (val (rows w ! i) ''do_predict'') (Fin 1)
                      \<and> flt (ml_upside_series w ! i)
                           (fdiv (fneg (Fin (ml_confidence_short params))) (Fin 100)))
             then Some (Fin 0) else cell w i ''enter_short'')"
    by blast
  have sum: "fgt (series_sum (col w c)) (Fin 0)"
    if "c \<in> {''enter_long'', ''enter_short''}" "cell w i c = Some (Fin 1)" for c i
  proof -
    from that(2) have "i < length (rows w)" "val (rows w ! i) c = Fin 1"
      by (auto simp: cell_def split: if_splits)
    moreover from bool that(1)
    have "\<forall>r \<in> set (rows w). val r c = Fin 0 \<or> val r c = Fin 1 \<or> val r c = NaN" by blast
    ultimately show ?thesis using boolean_sum_col [of w c] by blast
  qed
  have has: "has_col w c" if "cell w i c = Some v" for c i v
    using that by (auto simp: cell_def split: if_splits)
  show ?thesis
  proof (intro exI conjI allI impI)
    show "ml_filter_entries params w = Inr out" by (rule out)
    show "length (rows out) = length (rows w)" by (rule out)
    show "has_col out c \<longleftrightarrow> c = ''ml_upside'' \<or> has_col w c" for c using out(3) by blast
  next
    fix i assume i: "i < length (rows w)"
    show "cell out i ''ml_upside'' = Some (ml_upside_series w ! i)"
      using cells [OF i] by simp
    show "cell out i ''enter_long'' = Some (Fin 1) \<longleftrightarrow>
             cell w i ''enter_long'' = Some (Fin 1)
             \<and> feq (val (rows w ! i) ''do_predict'') (Fin 1)
             \<and> fgt (ml_upside_series w ! i) (fdiv (Fin (ml_confidence_long params)) (Fin 100))"
      using cells [OF i] sum [of "''enter_long''" i] has [of i "''enter_long''" "Fin 1"]
      by (auto split: if_splits)
    show "cell out i ''enter_short'' = Some (Fin 1) \<longleftrightarrow>
             cell w i ''enter_short'' = Some (Fin 1)
             \<and> feq (val (rows w ! i) ''do_predict'') (Fin 1)
             \<and> flt (ml_upside_series w ! i)
                  (fdiv (fneg (Fin (ml_confidence_short params))) (Fin 100))"
      using cells [OF i] sum [of "''enter_short''" i] has [of i "''enter_short''" "Fin 1"]
      by (auto split: if_splits)
  next
    fix i assume i: "i < length (rows w)" and z: "cell w i ''enter_long'' = Some (Fin 0)"
    show "cell out i ''enter_long'' = Some (Fin 0)"
      using cells [OF i] z by (auto split: if_splits)
  next
    fix i assume i: "i < length (rows w)" and z: "cell w i ''enter_short'' = Some (Fin 0)"
    show "cell out i ''enter_short'' = Some (Fin 0)"
      using cells [OF i] z by (auto split: if_splits)
  qed
qed

lemma filter_frame_facts:
  "has_col filter_frame ''&-s_close''" "has_col filter_frame ''do_predict''"
  "has_col filter_frame ''close''" "has_col filter_frame ''enter_long''"
  "has_col filter_frame ''enter_short''"
  "\<forall>c \<in> {''enter_long'', ''enter_short''}. \<forall>r \<in> set (rows filter_frame).
     val r c = Fin 0 \<or> val r c = Fin 1 \<or> val r c = NaN"
  "length (filter (\<lambda>r. val r ''enter_long'' = Fin 1) (rows filter_frame)) = 10"
  "length (filter (\<lambda>r. val r ''enter_long'' = Fin 1
       \<and> \<not> (feq (val r ''do_predict'') (Fin 1)
            \<and> fgt (fdiv (fsub (val r ''&-s_close'') (val r ''close'')) (val r ''close''))
                 (fdiv (Fin (ml_confidence_long default_params)) (Fin 100))))
     (rows filter_frame)) = 6"
  by (simp_all add: filter_frame_def mk_frame_def mk_row_def has_col_def default_params_simps
      feq_def fgt_def fsub_def)

lemma signal_frame_facts:
  "Suc 0 < length (rows signal_frame)"
  "fne (val (rows signal_frame ! Suc 0) ''do_predict'') (Fin 1)"
  "\<forall>c \<in> set [''do_predict'', ''&-s_close'', ''EMA_12'', ''EMA_26'', ''RSI_14'',
               ''bb_width'', ''volume'', ''close'']. has_col signal_frame c"
  "\<forall>c \<in> {''enter_long'', ''enter_short''}. \<forall>r \<in> set (rows signal_frame).
     val r c = Fin 0 \<or> val r c = Fin 1 \<or> val r c = NaN"
  "cell signal_frame (Suc 0) ''enter_long'' = Some (Fin 1)"
  "cell signal_frame (Suc 0) ''enter_short'' = Some (Fin 1)"
  "cell signal_frame (Suc 0) ''exit_long'' = Some (Fin 0)"
  "cell signal_frame (Suc 0) ''exit_short'' = Some (Fin 0)"
  "tag_cell signal_frame (Suc 0) ''exit_tag'' = None"
  by (simp_all add: signal_frame_def mk_frame_def mk_row_def has_col_def cell_def tag_cell_def
      fne_def feq_def)

text \<open>The filter writes nothing but 0: a double entry after it was one before it.\<close>

lemma ml_filter_entries_adds_no_entry:
  assumes "ml_filter_entries params w = Inr out" and "i < length (rows w)"
    and "cell out i c = Some (Fin 1)" and "c = ''enter_long'' \<or> c = ''enter_short''"
  shows "cell w i c = Some (Fin 1)"
proof (cases "has_col w ''&-s_close'' \<and> has_col w ''do_predict''")
  case False
  with assms show ?thesis by (auto simp: ml_filter_entries_def)
next
  case True
  with assms(1) have "has_col w ''close''"
    by (auto simp: ml_filter_entries_def split: if_splits)
  with True ml_filter_entries_cells [of w params] assms show ?thesis
    by (auto split: if_splits)
qed

section \<open>Shifted and rolling windows\<close>

lemma length_shift_neg [simp]: "length (shift_neg k xs) = length xs"
  by (simp add: shift_neg_def)

lemma length_rolling_mean [simp]: "length (rolling_mean w xs) = length xs"
  by (simp add: rolling_mean_def)

lemma foldl_fadd_NaN [simp]: "foldl fadd NaN xs = NaN"
  by (induction xs) simp_all

lemma foldl_fadd_has_NaN: "NaN \<in> set xs \<Longrightarrow> foldl fadd a xs = NaN"
proof (induction xs arbitrary: a)
  case Nil
  then show ?case by simp
next
  case (Cons x xs)
  show ?case
  proof (cases "x = NaN")
    case True
    then have "fadd a x = NaN" by (cases a) simp_all
    then show ?thesis by simp
  next
    case False
    with Cons.prems have "NaN \<in> set xs" by simp
    then show ?thesis by (simp add: Cons.IH)
  qed
qed

lemma fsum_has_NaN: "NaN \<in> set xs \<Longrightarrow> fsum xs = NaN"
  by (simp add: fsum_def foldl_fadd_has_NaN)

lemma nth_rolling_mean:
  "i < length xs \<Longrightarrow>
   rolling_mean w xs ! i =
     (if i + 1 < w then NaN else fdiv (fsum (take w (drop (i + 1 - w) xs))) (Fin (real w)))"
  by (simp add: rolling_mean_def Let_def fsum_has_NaN)

lemma nth_shift_neg:
  "i < length xs \<Longrightarrow> shift_neg k xs ! i = (if i + k < length xs then xs ! (i + k) else NaN)"
proof (cases "i + k < length xs")
  case True
  then have "i < length xs - k" by arith
  with True show ?thesis by (simp add: shift_neg_def nth_append add.commute)
next
  case False
  assume i: "i < length xs"
  with False have "i - (length xs - k) < min k (length xs)" by arith
  then have "replicate (min k (length xs)) NaN ! (i - (length xs - k)) = NaN"
    by (rule nth_replicate)
  moreover from False have "\<not> i < length xs - k" by arith
  ultimately show ?thesis using False by (simp add: shift_neg_def nth_append)
qed

lemma window_shift_neg:
  assumes "w \<le> i + 1" and "i + k < length xs"
  shows "take w (drop (i + 1 - w) (shift_neg k xs)) = take w (drop (i + 1 - w + k) xs)"
  using assms by (simp add: shift_neg_def add.commute)

lemma window_shift_neg_NaN:
  assumes "w \<le> i + 1" and "0 < w" and "i < length xs" and "\<not> i + k < length xs"
  shows "NaN \<in> set (take w (drop (i + 1 - w) (shift_neg k xs)))"
proof -
  let ?win = "take w (drop (i + 1 - w) (shift_neg k xs))"
  have len: "w - 1 < length ?win" using assms by simp
  have "?win ! (w - 1) = shift_neg k xs ! i" using assms by simp
  also have "\<dots> = NaN" using assms by (simp add: nth_shift_neg)
  finally have "?win ! (w - 1) = NaN" .
  with len show ?thesis by (metis nth_mem)
qed

lemma nth_rolling_mean_shift_neg:
  assumes "i < length xs" and "0 < w"
  shows "rolling_mean w (shift_neg k xs) ! i =
     (if w \<le> i + 1 \<and> i + k < length xs
      then fdiv (fsum (take w (drop (i + 1 - w + k) xs))) (Fin (real w)) else NaN)"
proof (cases "w \<le> i + 1")
  case False
  with assms show ?thesis by (simp add: nth_rolling_mean)
next
  case True
  show ?thesis
  proof (cases "i + k < length xs")
    case True
    have "rolling_mean w (shift_neg k xs) ! i =
            fdiv (fsum (take w (drop (i + 1 - w) (shift_neg k xs)))) (Fin (real w))"
      using \<open>w \<le> i + 1\<close> assms by (simp add: nth_rolling_mean)
    also have "\<dots> = fdiv (fsum (take w (drop (i + 1 - w + k) xs))) (Fin (real w))"
      by (simp only: window_shift_neg [OF \<open>w \<le> i + 1\<close> True])
    finally show ?thesis using True \<open>w \<le> i + 1\<close> by simp
  next
    case False
    with \<open>w \<le> i + 1\<close> assms
    have "fsum (take w (drop (i + 1 - w) (shift_neg k xs))) = NaN"
      by (intro fsum_has_NaN window_shift_neg_NaN)
    with False \<open>w \<le> i + 1\<close> assms show ?thesis
      by (simp add: nth_rolling_mean)
  qed
qed

text \<open>The target column of both variants, row by row.\<close>

lemma target_columns:
  assumes "info ''feature_parameters'' = Some fp" and "fp ''label_period_candles'' = Some H"
    and "0 < H" and "has_col df ''close''"
  shows "(\<exists>out. set_freqai_targets info df md = Inr out
            \<and> length (rows out) = length (rows df)
            \<and> (\<forall>i < length (rows df).
                 cell out i ''&-s_close'' =
                   Some (if H \<le> i + 1 \<and> i + H < length (rows df)
                         then fsub (fdiv (fdiv (fsum (take H (drop (i + 1) (col df ''close''))))
                                               (Fin (real H)))
                                         (val (rows df ! i) ''close''))
                                   (Fin 1)
                         else NaN)))
       \<and> (\<exists>out. hybrid_set_freqai_targets df md = Inr out
            \<and> length (rows out) = length (rows df)
            \<and> (\<forall>i < length (rows df).
                 cell out i ''&-s_close'' =
                   Some (if 5 \<le> i + 1 \<and> i + 24 < length (rows df)
                         then fdiv (fsum (take 5 (drop (i + 20) (col df ''close'')))) (Fin 5)
                         else NaN)))"
proof (intro conjI)
  have roll: "rolling_mean H (shift_neg H (col df ''close'')) ! i =
      (if H \<le> i + 1 \<and> i + H < length (rows df)
       then fdiv (fsum (take H (drop (i + 1) (col df ''close'')))) (Fin (real H)) else NaN)"
    if "i < length (rows df)" for i
    using that nth_rolling_mean_shift_neg [of i "col df ''close''" H H] \<open>0 < H\<close> by auto
  show "\<exists>out. set_freqai_targets info df md = Inr out
            \<and> length (rows out) = length (rows df)
            \<and> (\<forall>i < length (rows df).
                 cell out i ''&-s_close'' =
                   Some (if H \<le> i + 1 \<and> i + H < length (rows df)
                         then fsub (fdiv (fdiv (fsum (take H (drop (i + 1) (col df ''close''))))
                                               (Fin (real H)))
                                         (val (rows df ! i) ''close''))
                                   (Fin 1)
                         else NaN))"
    using assms by (simp add: set_freqai_targets_def cell_set_col roll fsub_def)
  have roll5: "rolling_mean 5 (shift_neg 24 (col df ''close'')) ! i =
      (if 5 \<le> i + 1 \<and> i + 24 < length (rows df)
       then fdiv (fsum (take 5 (drop (i + 20) (col df ''close'')))) (Fin 5) else NaN)"
    if "i < length (rows df)" for i
    using that nth_rolling_mean_shift_neg [of i "col df ''close''" 5 24]
    by (auto simp: add.commute)
  show "\<exists>out. hybrid_set_freqai_targets df md = Inr out
            \<and> length (rows out) = length (rows df)
            \<and> (\<forall>i < length (rows df).
                 cell out i ''&-s_close'' =
                   Some (if 5 \<le> i + 1 \<and> i + 24 < length (rows df)
                         then fdiv (fsum (take 5 (drop (i + 20) (col df ''close'')))) (Fin 5)
                         else NaN))"
    using assms by (simp add: hybrid_set_freqai_targets_def cell_set_col roll5)
qed

lemma ramp_frame_facts:
  "has_col ramp_frame ''close''" "length (rows ramp_frame) = 4"
  "col ramp_frame ''close'' = [Fin 1, Fin 2, Fin 3, Fin 4]"
  "val (rows ramp_frame ! 0) ''close'' = Fin 1"
  "val (rows ramp_frame ! Suc 0) ''close'' = Fin 2"
  by (simp_all add: ramp_frame_def mk_frame_def mk_row_def has_col_def col_def)

lemma flat_frame_facts:
  "has_col flat_frame ''close''" "length (rows flat_frame) = 29"
  "col flat_frame ''close'' = replicate 29 (Fin 100)"
  "val (rows flat_frame ! 4) ''close'' = Fin 100"
  by (simp_all add: flat_frame_def mk_frame_def mk_row_def has_col_def col_def)

lemma freqai_info_of_simps:
  "freqai_info_of H ''feature_parameters'' = Some [''label_period_candles'' \<mapsto> H]"
  "[''label_period_candles'' \<mapsto> H] ''label_period_candles'' = Some H"
  by (simp_all add: freqai_info_of_def)

section \<open>Feature engineering, block by block\<close>

lemma val_set_col:
  "i < length (rows d) \<Longrightarrow>
   val (rows (set_col d c xs) ! i) c' =
     (if c' = c then (if i < length xs then xs ! i else NaN) else val (rows d ! i) c')"
  by (simp add: nth_rows_set_col)

lemma expand_oscillators_frame:
  "length (rows (expand_oscillators lib df period)) = length (rows df)"
  "has_col df c \<Longrightarrow> has_col (expand_oscillators lib df period) c"
  "i < length (rows df) \<Longrightarrow>
   c \<notin> {''%-rsi-period'', ''%-mfi-period'', ''%-adx-period'', ''%-sma-period'', ''%-ema-period''} \<Longrightarrow>
   val (rows (expand_oscillators lib df period) ! i) c = val (rows df ! i) c"
  by (simp_all add: expand_oscillators_def Let_def val_set_col)

lemma expand_bollinger_frame:
  assumes "has_col df ''close''"
  shows "\<exists>out. expand_bollinger lib df period = Inr out
     \<and> length (rows out) = length (rows df)
     \<and> (\<forall>c. has_col df c \<longrightarrow> has_col out c)
     \<and> has_col out ''bb_lowerband-period'' \<and> has_col out ''%-close-bb_lower-period''
     \<and> (\<forall>i < length (rows df).
          val (rows out ! i) ''close'' = val (rows df ! i) ''close''
        \<and> val (rows out ! i) ''volume'' = val (rows df ! i) ''volume''
        \<and> val (rows out ! i) ''bb_lowerband-period'' =
            (if i < length (bb_lower (bollinger_bands lib (typical_price lib df) period 2.2))
             then bb_lower (bollinger_bands lib (typical_price lib df) period 2.2) ! i else NaN)
        \<and> val (rows out ! i) ''%-bb_width-period'' =
            fdiv (fsub (val (rows out ! i) ''bb_upperband-period'')
                       (val (rows out ! i) ''bb_lowerband-period''))
                 (val (rows out ! i) ''bb_middleband-period'')
        \<and> val (rows out ! i) ''%-close-bb_lower-period'' =
            fdiv (val (rows df ! i) ''close'') (val (rows out ! i) ''bb_lowerband-period''))"
  using assms by (simp add: expand_bollinger_def Let_def val_set_col)

lemma expand_volume_frame:
  assumes "has_col df ''volume''"
  shows "\<exists>out. expand_volume lib df period = Inr out
     \<and> length (rows out) = length (rows df)
     \<and> (\<forall>c. has_col df c \<longrightarrow> has_col out c)
     \<and> (\<forall>i < length (rows df).
          (\<forall>c. c \<notin> {''%-roc-period'', ''%-relative_volume-period''} \<longrightarrow>
             val (rows out ! i) c = val (rows df ! i) c)
        \<and> val (rows out ! i) ''%-relative_volume-period'' =
            fdiv (val (rows df ! i) ''volume'') (rolling_mean period (col df ''volume'') ! i))"
  using assms by (simp add: expand_volume_def Let_def val_set_col col_set_col_other)

lemma expand_stochrsi_frame:
  "length (rows (expand_stochrsi lib df period)) = length (rows df)"
  "has_col df c \<Longrightarrow> has_col (expand_stochrsi lib df period) c"
  "i < length (rows df) \<Longrightarrow> c \<notin> {''%-stochrsi_k-period'', ''%-stochrsi_d-period''} \<Longrightarrow>
   val (rows (expand_stochrsi lib df period) ! i) c = val (rows df ! i) c"
  by (simp_all add: expand_stochrsi_def Let_def val_set_col)


lemma feature_engineering_expand_all_cells:
  assumes "has_col df ''close''" and "has_col df ''volume''"
  shows "\<exists>out. feature_engineering_expand_all lib df period md = Inr out
     \<and> length (rows out) = length (rows df)
     \<and> has_col out ''bb_lowerband-period'' \<and> has_col out ''%-close-bb_lower-period''
     \<and> (\<forall>i < length (rows df).
          val (rows out ! i) ''bb_lowerband-period'' =
            (if i < length (bb_lower (bollinger_bands lib
                   (typical_price lib (expand_oscillators lib df period)) period 2.2))
             then bb_lower (bollinger_bands lib
                   (typical_price lib (expand_oscillators lib df period)) period 2.2) ! i
             else NaN)
        \<and> val (rows out ! i) ''%-bb_width-period'' =
            fdiv (fsub (val (rows out ! i) ''bb_upperband-period'')
                       (val (rows out ! i) ''bb_lowerband-period''))
                 (val (rows out ! i) ''bb_middleband-period'')
        \<and> val (rows out ! i) ''%-close-bb_lower-period'' =
            fdiv (val (rows df ! i) ''close'') (val (rows out ! i) ''bb_lowerband-period'')
        \<and> val (rows out ! i) ''%-relative_volume-period'' =
            fdiv (val (rows df ! i) ''volume'') (rolling_mean period (col df ''volume'') ! i))"
proof -
  let ?d5 = "expand_oscillators lib df period"
  have l5: "length (rows ?d5) = length (rows df)"
    and h5: "has_col ?d5 ''close''" "has_col ?d5 ''volume''"
    and v5: "\<And>i. i < length (rows df) \<Longrightarrow> val (rows ?d5 ! i) ''close'' = val (rows df ! i) ''close''"
      "\<And>i. i < length (rows df) \<Longrightarrow> val (rows ?d5 ! i) ''volume'' = val (rows df ! i) ''volume''"
    using assms by (simp_all add: expand_oscillators_frame)
  from expand_bollinger_frame [OF h5(1), of lib period] obtain d10 where
    b: "expand_bollinger lib ?d5 period = Inr d10" "length (rows d10) = length (rows ?d5)"
      "\<forall>c. has_col ?d5 c \<longrightarrow> has_col d10 c"
      "has_col d10 ''bb_lowerband-period''" "has_col d10 ''%-close-bb_lower-period''"
    and v10: "\<And>i. i < length (rows ?d5) \<Longrightarrow>
          val (rows d10 ! i) ''close'' = val (rows ?d5 ! i) ''close''
        \<and> val (rows d10 ! i) ''volume'' = val (rows ?d5 ! i) ''volume''
        \<and> val (rows d10 ! i) ''bb_lowerband-period'' =
            (if i < length (bb_lower (bollinger_bands lib (typical_price lib ?d5) period 2.2))
             then bb_lower (bollinger_bands lib (typical_price lib ?d5) period 2.2) ! i else NaN)
        \<and> val (rows d10 ! i) ''%-bb_width-period'' =
            fdiv (fsub (val (rows d10 ! i) ''bb_upperband-period'')
                       (val (rows d10 ! i) ''bb_lowerband-period''))
                 (val (rows d10 ! i) ''bb_middleband-period'')
        \<and> val (rows d10 ! i) ''%-close-bb_lower-period'' =
            fdiv (val (rows ?d5 ! i) ''close'') (val (rows d10 ! i) ''bb_lowerband-period'')"
    by blast
  from b(3) h5(2) have h10: "has_col d10 ''volume''" by blast
  from expand_volume_frame [OF h10, of lib period] obtain d12 where
    v: "expand_volume lib d10 period = Inr d12" "length (rows d12) = length (rows d10)"
      "\<forall>c. has_col d10 c \<longrightarrow> has_col d12 c"
    and v12: "\<And>i. i < length (rows d10) \<Longrightarrow>
          (\<forall>c. c \<notin> {''%-roc-period'', ''%-relative_volume-period''} \<longrightarrow>
             val (rows d12 ! i) c = val (rows d10 ! i) c)
        \<and> val (rows d12 ! i) ''%-relative_volume-period'' =
            fdiv (val (rows d10 ! i) ''volume'') (rolling_mean period (col d10 ''volume'') ! i)"
    by blast
  let ?out = "expand_stochrsi lib d12 period"
  have len: "length (rows d10) = length (rows df)" "length (rows d12) = length (rows df)"
    "length (rows ?out) = length (rows df)"
    using b(2) v(2) l5 by (simp_all add: expand_stochrsi_frame)
  have volume: "col d10 ''volume'' = col df ''volume''"
    by (rule nth_equalityI) (use len l5 v10 v5 in simp_all)
  have e: "feature_engineering_expand_all lib df period md = Inr ?out"
    by (simp add: feature_engineering_expand_all_def b v)
  have hc: "has_col ?out ''bb_lowerband-period''" "has_col ?out ''%-close-bb_lower-period''"
    using b(4,5) v(3) by (simp_all add: expand_stochrsi_frame)
  have cells: "val (rows ?out ! i) ''bb_lowerband-period'' =
            (if i < length (bb_lower (bollinger_bands lib (typical_price lib ?d5) period 2.2))
             then bb_lower (bollinger_bands lib (typical_price lib ?d5) period 2.2) ! i else NaN)
        \<and> val (rows ?out ! i) ''%-bb_width-period'' =
            fdiv (fsub (val (rows ?out ! i) ''bb_upperband-period'')
                       (val (rows ?out ! i) ''bb_lowerband-period''))
                 (val (rows ?out ! i) ''bb_middleband-period'')
        \<and> val (rows ?out ! i) ''%-close-bb_lower-period'' =
            fdiv (val (rows df ! i) ''close'') (val (rows ?out ! i) ''bb_lowerband-period'')
        \<and> val (rows ?out ! i) ''%-relative_volume-period'' =
            fdiv (val (rows df ! i) ''volume'') (rolling_mean period (col df ''volume'') ! i)"
    if i: "i < length (rows df)" for i
  proof -
    have keep: "val (rows ?out ! i) c = val (rows d10 ! i) c"
      if "c \<notin> {''%-roc-period'', ''%-relative_volume-period'',
                 ''%-stochrsi_k-period'', ''%-stochrsi_d-period''}" for c
      using that i len v12 [of i] by (simp add: expand_stochrsi_frame)
    have rel: "val (rows ?out ! i) ''%-relative_volume-period'' =
        fdiv (val (rows df ! i) ''volume'') (rolling_mean period (col df ''volume'') ! i)"
      using i len l5 v12 [of i] v10 [of i] v5 [of i] volume by (simp add: expand_stochrsi_frame)
    from v10 [of i] i l5 v5 [of i] rel show ?thesis by (simp add: keep)
  qed
  from e len(3) hc cells show ?thesis by blast
qed

lemma fdiv_special:
  "den = NaN \<Longrightarrow> fdiv num den = NaN"
  "den = Fin 0 \<Longrightarrow> num = Fin 0 \<or> num = NaN \<Longrightarrow> fdiv num den = NaN"
  "den = Fin 0 \<Longrightarrow> num = Fin a \<Longrightarrow> a \<noteq> 0 \<Longrightarrow> fdiv num den = (if 0 < a then PInf else NInf)"
  by (cases num; auto simp: signed_inf_def)+

lemma NaN_compares_false: "\<not> fgt NaN t" "\<not> flt NaN t" "\<not> feq NaN t"
  by (cases t; simp add: fgt_def feq_def)+

lemma price_frame_facts:
  "has_col price_frame ''close''" "has_col price_frame ''volume''"
  "0 < length (rows price_frame)" "length (rows price_frame) = 1"
  "val (rows price_frame ! 0) ''close'' = Fin 5"
  "val (rows price_frame ! 0) ''volume'' = Fin 0"
  "col price_frame ''volume'' = [Fin 0]"
  by (simp_all add: price_frame_def mk_frame_def mk_row_def has_col_def col_def)

lemma zero_band_lib_bands:
  "bb_lower (bollinger_bands zero_band_lib tp window stds) = [Fin 0]"
  by (simp add: zero_band_lib_def)

section \<open>The trade guard: claims C1, C5 and C6\<close>






text \<open>
  C6. \<open>custom_exit\<close> returns \<open>ml_confidence_lost\<close> whenever the last candle's
  \<open>do_predict\<close> is not 1, before it looks at the profit or the prediction; a reversal code
  only when \<open>do_predict\<close> is 1, the profit exceeds 0.02 and the prediction's sign opposes
  the side of the trade; and \<open>None\<close> otherwise, also on an empty frame.
\<close>

theorem custom_exit_reasons:
  assumes "rows (dp pair timeframe) \<noteq> [] \<longrightarrow>
             has_col (dp pair timeframe) ''do_predict'' \<and> has_col (dp pair timeframe) ''&-s_close''"
  shows "custom_exit dp pair trd t current_rate current_profit =
     Inr (if rows (dp pair timeframe) = [] then None
          else if fne (val (last (rows (dp pair timeframe))) ''do_predict'') (Fin 1)
            then Some ''ml_confidence_lost''
          else if fgt current_profit (Fin 0.02) \<and> is_short trd
                  \<and> fgt (val (last (rows (dp pair timeframe))) ''&-s_close'') (Fin 0)
            then Some ''ml_reversal_short''
          else if fgt current_profit (Fin 0.02) \<and> \<not> is_short trd
                  \<and> flt (val (last (rows (dp pair timeframe))) ''&-s_close'') (Fin 0)
            then Some ''ml_reversal_long''
          else None)"
  using assms by (simp add: custom_exit_def Let_def)

theorem custom_exit_reasons_witness:
  "custom_exit (\<lambda>p tf. prediction_candle 0 (- 0.01)) ''BTC/USDT:USDT'' \<lparr>is_short = False\<rparr> 0
      (Fin 100) (Fin 0.05) = Inr (Some ''ml_confidence_lost'')
   \<and> custom_exit (\<lambda>p tf. prediction_candle 1 (- 0.01)) ''BTC/USDT:USDT'' \<lparr>is_short = False\<rparr> 0
      (Fin 100) (Fin 0.05) = Inr (Some ''ml_reversal_long'')
   \<and> custom_exit (\<lambda>p tf. prediction_candle 1 0.01) ''BTC/USDT:USDT'' \<lparr>is_short = True\<rparr> 0
      (Fin 100) (Fin 0.05) = Inr (Some ''ml_reversal_short'')
   \<and> custom_exit (\<lambda>p tf. prediction_candle 1 (- 0.01)) ''BTC/USDT:USDT'' \<lparr>is_short = False\<rparr> 0
      (Fin 100) (Fin 0.01) = Inr None
   \<and> custom_exit (\<lambda>p tf. mk_frame [] []) ''BTC/USDT:USDT'' \<lparr>is_short = False\<rparr> 0
      (Fin 100) (Fin 0.05) = Inr None"
proof -
  have c: "rows ((\<lambda>p tf. prediction_candle a b) ''BTC/USDT:USDT'' timeframe) \<noteq> [] \<longrightarrow>
           has_col ((\<lambda>p tf. prediction_candle a b) ''BTC/USDT:USDT'' timeframe) ''do_predict''
         \<and> has_col ((\<lambda>p tf. prediction_candle a b) ''BTC/USDT:USDT'' timeframe) ''&-s_close''"
    for a b
    by (simp add: prediction_candle_def mk_frame_def has_col_def)
  have e: "rows ((\<lambda>p tf. mk_frame [] []) ''BTC/USDT:USDT'' timeframe) \<noteq> [] \<longrightarrow>
           has_col ((\<lambda>p tf. mk_frame [] []) ''BTC/USDT:USDT'' timeframe) ''do_predict''
         \<and> has_col ((\<lambda>p tf. mk_frame [] []) ''BTC/USDT:USDT'' timeframe) ''&-s_close''"
    by (simp add: mk_frame_def)
  have v: "rows (prediction_candle a b) \<noteq> []"
    "val (last (rows (prediction_candle a b))) ''do_predict'' = Fin a"
    "val (last (rows (prediction_candle a b))) ''&-s_close'' = Fin b" for a b
    by (simp_all add: prediction_candle_def mk_frame_def mk_row_def)
  have n: "rows (mk_frame [] []) = []" by (simp add: mk_frame_def)
  show ?thesis
    by (simp add: custom_exit_reasons [OF c] custom_exit_reasons [OF e] v n fgt_def fne_def feq_def)
qed

section \<open>Target labelling: claim C2\<close>




section \<open>Signal fusion of the primary strategy: claim C3\<close>

text \<open>
  C3. \<open>populate_entry_trend\<close> writes \<open>enter_long = 1\<close> and the tag \<open>ml_long\<close> on exactly
  the rows where all five conditions hold: \<open>do_predict = 1\<close>, \<open>&-s_close > 0.0001\<close>,
  \<open>EMA_12 > EMA_26\<close> or \<open>RSI_14 < 35\<close>, \<open>bb_width > 0.015\<close> and \<open>volume > 0\<close>. Every other
  row keeps its cells (a missing value where the column is new), and \<open>enter_short\<close> is
  never written.
\<close>

theorem populate_entry_trend_long_only:
  assumes cols: "\<forall>c \<in> set [''do_predict'', ''&-s_close'', ''EMA_12'', ''EMA_26'', ''RSI_14'',
                             ''bb_width'', ''volume'']. has_col df c"
  shows "\<exists>out. populate_entry_trend df md = Inr out
      \<and> length (rows out) = length (rows df)
      \<and> (\<forall>i < length (rows df).
           cell out i ''enter_short'' = cell df i ''enter_short''
         \<and> (if feq (val (rows df ! i) ''do_predict'') (Fin 1)
               \<and> fgt (val (rows df ! i) ''&-s_close'') (Fin 0.0001)
               \<and> (fgt (val (rows df ! i) ''EMA_12'') (val (rows df ! i) ''EMA_26'')
                    \<or> flt (val (rows df ! i) ''RSI_14'') (Fin 35))
               \<and> fgt (val (rows df ! i) ''bb_width'') (Fin 0.015)
               \<and> fgt (val (rows df ! i) ''volume'') (Fin 0)
            then cell out i ''enter_long'' = Some (Fin 1)
               \<and> tag_cell out i ''enter_tag'' = Some ''ml_long''
            else cell out i ''enter_long'' =
                   Some (case cell df i ''enter_long'' of Some v \<Rightarrow> v | None \<Rightarrow> NaN)
               \<and> tag_cell out i ''enter_tag'' = tag_cell df i ''enter_tag''))"
proof -
  from populate_entry_trend_cells [OF cols, of md] obtain out where
    out: "populate_entry_trend df md = Inr out" "length (rows out) = length (rows df)"
    and cells: "\<And>i. i < length (rows df) \<Longrightarrow>
          cell out i ''enter_short'' = cell df i ''enter_short''
        \<and> cell out i ''enter_long'' =
            Some (if reduce mask_and (enter_long_conditions df) ! i then Fin 1
                  else (case cell df i ''enter_long'' of Some v \<Rightarrow> v | None \<Rightarrow> NaN))
        \<and> tag_cell out i ''enter_tag'' =
            (if reduce mask_and (enter_long_conditions df) ! i then Some ''ml_long''
             else tag_cell df i ''enter_tag'')"
    by blast
  show ?thesis
  proof (intro exI conjI allI impI)
    show "populate_entry_trend df md = Inr out" by (rule out)
    show "length (rows out) = length (rows df)" by (rule out)
  next
    fix i assume i: "i < length (rows df)"
    show "cell out i ''enter_short'' = cell df i ''enter_short''"
      using cells [OF i] by simp
    show "if feq (val (rows df ! i) ''do_predict'') (Fin 1)
               \<and> fgt (val (rows df ! i) ''&-s_close'') (Fin 0.0001)
               \<and> (fgt (val (rows df ! i) ''EMA_12'') (val (rows df ! i) ''EMA_26'')
                    \<or> flt (val (rows df ! i) ''RSI_14'') (Fin 35))
               \<and> fgt (val (rows df ! i) ''bb_width'') (Fin 0.015)
               \<and> fgt (val (rows df ! i) ''volume'') (Fin 0)
            then cell out i ''enter_long'' = Some (Fin 1)
               \<and> tag_cell out i ''enter_tag'' = Some ''ml_long''
            else cell out i ''enter_long'' =
                   Some (case cell df i ''enter_long'' of Some v \<Rightarrow> v | None \<Rightarrow> NaN)
               \<and> tag_cell out i ''enter_tag'' = tag_cell df i ''enter_tag''"
      unfolding nth_entry_mask [OF i, symmetric] using cells [OF i] by simp
  qed
qed

theorem populate_entry_trend_long_only_witness:
  "\<exists>out. populate_entry_trend entry_frame Map.empty = Inr out
     \<and> cell out 0 ''enter_long'' = Some (Fin 1) \<and> tag_cell out 0 ''enter_tag'' = Some ''ml_long''
     \<and> cell out 1 ''enter_long'' = Some NaN \<and> tag_cell out 1 ''enter_tag'' = None
     \<and> cell out 0 ''enter_short'' = None \<and> cell out 1 ''enter_short'' = None"
proof -
  from populate_entry_trend_long_only [OF entry_frame_facts(1), of Map.empty] obtain out where
    out: "populate_entry_trend entry_frame Map.empty = Inr out"
    and cells: "\<forall>i < length (rows entry_frame).
           cell out i ''enter_short'' = cell entry_frame i ''enter_short''
         \<and> (if feq (val (rows entry_frame ! i) ''do_predict'') (Fin 1)
               \<and> fgt (val (rows entry_frame ! i) ''&-s_close'') (Fin 0.0001)
               \<and> (fgt (val (rows entry_frame ! i) ''EMA_12'') (val (rows entry_frame ! i) ''EMA_26'')
                    \<or> flt (val (rows entry_frame ! i) ''RSI_14'') (Fin 35))
               \<and> fgt (val (rows entry_frame ! i) ''bb_width'') (Fin 0.015)
               \<and> fgt (val (rows entry_frame ! i) ''volume'') (Fin 0)
            then cell out i ''enter_long'' = Some (Fin 1)
               \<and> tag_cell out i ''enter_tag'' = Some ''ml_long''
            else cell out i ''enter_long'' =
                   Some (case cell entry_frame i ''enter_long'' of Some v \<Rightarrow> v | None \<Rightarrow> NaN)
               \<and> tag_cell out i ''enter_tag'' = tag_cell entry_frame i ''enter_tag'')"
    by blast
  have c0: "0 < length (rows entry_frame)" and c1: "1 < length (rows entry_frame)"
    by (simp_all add: entry_frame_facts)
  from cells [rule_format, OF c0] cells [rule_format, OF c1] out show ?thesis
    by (simp add: entry_frame_facts cell_def tag_cell_def feq_def fgt_def)
qed

section \<open>The validity flag: claim C4\<close>



section \<open>Entry filtering of the Hybrid strategy: claim C7\<close>



section \<open>Exit forcing of the Hybrid strategy: claim C8\<close>




section \<open>Ratio features: claim C9\<close>




section \<open>One side per row: claim C10\<close>



end
